theory Spec2Isabelle
  imports Main
begin

section \<open>Data model of \<^verbatim>\<open>spotify_auth.py\<close>\<close>

text \<open>
  The module is a set of HTTP handlers over three collaborators: the relational
  database (tables \<^verbatim>\<open>spotify_credentials\<close> and \<^verbatim>\<open>playlists\<close>), the OAuth helper
  of the provider's client library, and the provider's web API client. Each handler is
  a function from the collaborators' behaviour (\<open>env\<close>) and the process state to the
  response, the new state and the list of calls the handler made, in order.
  Timestamps are instants on one time line, as integers.
\<close>

subsection \<open>Responses and exceptions\<close>

text \<open>An exception raised by a collaborator; the string is \<^verbatim>\<open>str(e)\<close>.\<close>

datatype exn = Exception (message: string)

text \<open>
  A failed request: \<^verbatim>\<open>raise HTTPException(status_code, detail)\<close>, or an exception no
  handler catches, which the framework answers with status 500.
\<close>

datatype failure = HTTPException nat string | Unhandled exn

fun status_code :: "failure \<Rightarrow> nat" where
  "status_code (HTTPException c d) = c"
| "status_code (Unhandled e) = 500"

datatype redirect = RedirectResponse (url: string)

subsection \<open>The token dictionary and the cache handler\<close>

text \<open>The \<^verbatim>\<open>token_info\<close> dictionary of the OAuth helper, with the keys the module reads.\<close>

record token =
  tk_access_token :: string
  tk_refresh_token :: string
  tk_expires_in :: int
  tk_expires_at :: int

text \<open>
  \<^verbatim>\<open>class MemoryCacheHandler(CacheHandler)\<close>: one attribute, \<^verbatim>\<open>token_info\<close>,
  \<^verbatim>\<open>None\<close> after \<^verbatim>\<open>__init__\<close>.
\<close>

record MemoryCacheHandler =
  token_info :: "token option"

definition MemoryCacheHandler_init :: MemoryCacheHandler where
  "MemoryCacheHandler_init = \<lparr>token_info = None\<rparr>"

definition get_cached_token :: "MemoryCacheHandler \<Rightarrow> token option" where
  "get_cached_token self = token_info self"

definition save_token_to_cache :: "MemoryCacheHandler \<Rightarrow> token \<Rightarrow> MemoryCacheHandler" where
  "save_token_to_cache self ti = self\<lparr>token_info := Some ti\<rparr>"

subsection \<open>Tables\<close>

text \<open>
  A row of \<^verbatim>\<open>spotify_credentials\<close>, with the columns the statements of the module name
  (the surrogate key \<^verbatim>\<open>id\<close> is never read back as a value and is left out).
  \<^verbatim>\<open>liked_songs_sync_status\<close> is nullable text: the upsert's \<^verbatim>\<open>COALESCE\<close> reads it so.
\<close>

record cred_row =
  cr_user_id :: int
  cr_spotify_id :: string
  cr_access_token :: string
  cr_refresh_token :: string
  cr_token_expires_at :: int
  cr_last_used_at :: "int option"
  cr_liked_songs_sync_status :: "string option"
  cr_liked_songs_count :: int

text \<open>A row of \<^verbatim>\<open>playlists\<close>: the two columns the module's query names.\<close>

record playlist_row =
  pr_user_id :: int
  pr_spotify_playlist_id :: "string option"

text \<open>
  The process state: the two tables, and the cache handler of the module-level helper
  \<^verbatim>\<open>sp_oauth\<close>, created once when the module is imported.
\<close>

record state =
  spotify_credentials :: "cred_row list"
  playlists :: "playlist_row list"
  sp_oauth :: MemoryCacheHandler

record User =
  user_id :: int
  username :: string

subsection \<open>Calls to collaborators\<close>

datatype table = Spotify_credentials | Playlists

datatype stmt = SELECT | INSERT | UPDATE | DELETE

text \<open>
  One event per call the handlers make: a database statement, a method of the OAuth
  helper, a method of the provider client \<^verbatim>\<open>sp\<close>, or the hand-over of the background
  task.
\<close>

datatype event =
    Db stmt table
  | Get_authorize_url string
  | Get_access_token string
  | Refresh_access_token string
  | Current_user
  | Current_user_playlists
  | Next_page string
  | Current_user_recently_played int
  | Add_task int

fun is_db :: "event \<Rightarrow> bool" where
  "is_db (Db st t) = True"
| "is_db e = False"


fun touches_credentials :: "event \<Rightarrow> bool" where
  "touches_credentials (Db st t) = (t = Spotify_credentials)"
| "touches_credentials e = False"

text \<open>Calls that leave the process for the provider: token endpoint and web API.\<close>

fun is_network :: "event \<Rightarrow> bool" where
  "is_network (Get_access_token c) = True"
| "is_network (Refresh_access_token r) = True"
| "is_network Current_user = True"
| "is_network Current_user_playlists = True"
| "is_network (Next_page u) = True"
| "is_network (Current_user_recently_played n) = True"
| "is_network e = False"

fun is_provider_api :: "event \<Rightarrow> bool" where
  "is_provider_api Current_user = True"
| "is_provider_api Current_user_playlists = True"
| "is_provider_api (Next_page u) = True"
| "is_provider_api (Current_user_recently_played n) = True"
| "is_provider_api e = False"


subsection \<open>Provider data\<close>

text \<open>A playlist object of the provider: \<^verbatim>\<open>id\<close>, \<^verbatim>\<open>name\<close>, optional \<^verbatim>\<open>description\<close>.\<close>

record playlist =
  pl_id :: string
  pl_name :: string
  pl_description :: "string option"

text \<open>A paging object: \<^verbatim>\<open>items\<close> and the \<^verbatim>\<open>next\<close> URL (\<^verbatim>\<open>None\<close> on the last page).\<close>

record page =
  pg_items :: "playlist list"
  pg_next :: "string option"

record played_item =
  pi_track_name :: string
  pi_artists :: "string list"
  pi_album_name :: string
  pi_played_at :: string
  pi_spotify_url :: string
  pi_album_images :: "string list"

record recent_response =
  rr_items :: "played_item list option"

text \<open>The provider client \<^verbatim>\<open>spotipy.Spotify(auth=...)\<close>: it holds the access token.\<close>

datatype Spotify = Spotify (auth: string)

subsection \<open>The collaborators' behaviour\<close>

text \<open>
  Everything the handlers obtain from outside during one request. The two OAuth
  methods are those of a helper whose cache handler is the argument; they return the
  outcome and the cache handler as the method leaves it. The provider client's methods
  take the access token of the client. \<open>now_check\<close> and \<open>now_write\<close> are the two
  readings of \<^verbatim>\<open>datetime.now(timezone.utc)\<close> in \<^verbatim>\<open>get_spotify_client\<close>,
  \<open>current_timestamp\<close> is the database's \<^verbatim>\<open>CURRENT_TIMESTAMP\<close>, \<open>default_last_used_at\<close>
  the column default of the table definition, which is not part of the module, and
  \<open>upsert_raises\<close> says whether the database driver raises on the callback's upsert.
  \<open>py_int\<close> is the interpreter's builtin \<^verbatim>\<open>int\<close> on a \<^verbatim>\<open>str\<close>, with \<open>None\<close> for
  its \<^verbatim>\<open>ValueError\<close>. Which strings it accepts is the interpreter's matter and not
  the module's: the decimal digits and the whitespace of its Unicode tables, and its
  limit on the number of digits, change with its version and settings.
\<close>

record env =
  FRONTEND_URL :: string
  py_int :: "string \<Rightarrow> int option"
  get_authorize_url :: "string \<Rightarrow> string"
  get_access_token :: "MemoryCacheHandler \<Rightarrow> string \<Rightarrow> (exn + token) \<times> MemoryCacheHandler"
  refresh_access_token :: "MemoryCacheHandler \<Rightarrow> string \<Rightarrow> (exn + token) \<times> MemoryCacheHandler"
  current_user :: "string \<Rightarrow> exn + string"
  current_user_playlists :: "string \<Rightarrow> exn + page"
  next_page :: "string \<Rightarrow> string \<Rightarrow> exn + page"
  current_user_recently_played :: "string \<Rightarrow> int \<Rightarrow> exn + recent_response"
  now_check :: int
  now_write :: int
  current_timestamp :: int
  default_last_used_at :: "int option"
  upsert_raises :: "exn option"

section \<open>The token refresh gate\<close>

text \<open>\<^verbatim>\<open>SELECT * FROM spotify_credentials WHERE user_id = :user_id\<close>, first row.\<close>

definition fetch_one_credentials :: "cred_row list \<Rightarrow> int \<Rightarrow> cred_row option" where
  "fetch_one_credentials tbl uid = find (\<lambda>r. cr_user_id r = uid) tbl"

text \<open>The \<^verbatim>\<open>UPDATE ... WHERE user_id = :user_id\<close> of the refresh branch.\<close>

definition update_tokens ::
  "cred_row list \<Rightarrow> int \<Rightarrow> string \<Rightarrow> string \<Rightarrow> int \<Rightarrow> int \<Rightarrow> cred_row list" where
  "update_tokens tbl uid at rt expires_at ts =
     map (\<lambda>r. if cr_user_id r = uid
               then r\<lparr>cr_access_token := at, cr_refresh_token := rt,
                      cr_token_expires_at := expires_at, cr_last_used_at := Some ts\<rparr>
               else r) tbl"

definition get_spotify_client ::
  "env \<Rightarrow> state \<Rightarrow> User \<Rightarrow> (failure + Spotify) \<times> state \<times> event list" where
  "get_spotify_client e s user =
     (case fetch_one_credentials (spotify_credentials s) (user_id user) of
        None \<Rightarrow>
          (Inl (HTTPException 401 ''spotify account not connected''), s,
           [Db SELECT Spotify_credentials])
      | Some spotify_creds \<Rightarrow>
          if now_check e \<ge> cr_token_expires_at spotify_creds then
            (case refresh_access_token e MemoryCacheHandler_init
                    (cr_refresh_token spotify_creds) of
               (Inl x, user_oauth) \<Rightarrow>
                 (Inl (Unhandled x), s,
                  [Db SELECT Spotify_credentials,
                   Refresh_access_token (cr_refresh_token spotify_creds)])
             | (Inr ti, user_oauth) \<Rightarrow>
                 (Inr (Spotify (tk_access_token ti)),
                  s\<lparr>spotify_credentials :=
                      update_tokens (spotify_credentials s) (user_id user)
                        (tk_access_token ti) (tk_refresh_token ti)
                        (now_write e + tk_expires_in ti) (current_timestamp e)\<rparr>,
                  [Db SELECT Spotify_credentials,
                   Refresh_access_token (cr_refresh_token spotify_creds),
                   Db UPDATE Spotify_credentials]))
          else
            (Inr (Spotify (cr_access_token spotify_creds)), s,
             [Db SELECT Spotify_credentials]))"

section \<open>The authorization flow\<close>

subsection \<open>\<^verbatim>\<open>str\<close> of a user id, for the state parameter\<close>

text \<open>\<^verbatim>\<open>str(n)\<close> for an integer: decimal digits, a minus sign when negative.\<close>

fun digits :: "nat \<Rightarrow> string" where
  "digits n =
     (if n < 10 then [''0123456789'' ! n]
      else digits (n div 10) @ [''0123456789'' ! (n mod 10)])"

definition str_int :: "int \<Rightarrow> string" where
  "str_int i = (if i < 0 then CHR ''-'' # digits (nat (- i)) else digits (nat i))"

subsection \<open>Connect, status, disconnect\<close>

text \<open>
  Modelled from the spec: the \<^verbatim>\<open>database\<close> module, which is not among the sources.
  \<^verbatim>\<open>database.execute\<close> on \<^verbatim>\<open>SELECT id FROM spotify_credentials WHERE user_id = :user_id\<close>
  gives a value that is truthy exactly when a Credential row of the user exists
  (``fails with Conflict if a Credential already exists'', ``returns whether a
  Credential row exists'').
\<close>

definition execute_select_id :: "cred_row list \<Rightarrow> int \<Rightarrow> bool" where
  "execute_select_id tbl uid = list_ex (\<lambda>r. cr_user_id r = uid) tbl"

text \<open>\<^verbatim>\<open>@router.get("/connect")\<close>; the answer is the dictionary \<^verbatim>\<open>{"url": auth_url}\<close>.\<close>

definition spotify_connect ::
  "env \<Rightarrow> state \<Rightarrow> User \<Rightarrow> (failure + string) \<times> state \<times> event list" where
  "spotify_connect e s current_user' =
     (let result = execute_select_id (spotify_credentials s) (user_id current_user') in
      if result then
        (Inl (HTTPException 400 ''spotify already connected''), s,
         [Db SELECT Spotify_credentials])
      else
        (Inr (get_authorize_url e (str_int (user_id current_user'))), s,
         [Db SELECT Spotify_credentials,
          Get_authorize_url (str_int (user_id current_user'))]))"

text \<open>\<^verbatim>\<open>@router.get("/status")\<close>; the answer is \<^verbatim>\<open>{"is_connected": bool(result)}\<close>.\<close>

definition spotify_connection_status ::
  "state \<Rightarrow> User \<Rightarrow> bool \<times> state \<times> event list" where
  "spotify_connection_status s current_user' =
     (execute_select_id (spotify_credentials s) (user_id current_user'), s,
      [Db SELECT Spotify_credentials])"

text \<open>\<^verbatim>\<open>@router.delete("/disconnect")\<close>.\<close>

definition spotify_disconnect :: "state \<Rightarrow> User \<Rightarrow> string \<times> state \<times> event list" where
  "spotify_disconnect s current_user' =
     (''spotify disconnected successfully'',
      s\<lparr>spotify_credentials :=
          filter (\<lambda>r. cr_user_id r \<noteq> user_id current_user') (spotify_credentials s)\<rparr>,
      [Db DELETE Spotify_credentials])"

subsection \<open>The callback\<close>

text \<open>
  The \<^verbatim>\<open>CASE\<close> expression of the upsert's conflict branch, on the status of the row
  that is already there.
\<close>

definition conflict_sync_status :: "string option \<Rightarrow> string option" where
  "conflict_sync_status old =
     (if old = Some ''completed'' then Some ''needs_update''
      else Some (case old of None \<Rightarrow> ''not_started'' | Some st \<Rightarrow> st))"

text \<open>
  \<^verbatim>\<open>INSERT INTO spotify_credentials ... ON CONFLICT (user_id) DO UPDATE SET ...\<close>:
  when a row of the user is there it is rewritten in place, otherwise a row is added.
\<close>

definition upsert_credentials ::
  "cred_row list \<Rightarrow> int option \<Rightarrow> int \<Rightarrow> int \<Rightarrow> string \<Rightarrow> string \<Rightarrow> string \<Rightarrow> int
     \<Rightarrow> cred_row list" where
  "upsert_credentials tbl dflt ts uid sid at rt expires_at =
     (if list_ex (\<lambda>r. cr_user_id r = uid) tbl then
        map (\<lambda>r. if cr_user_id r = uid
                  then r\<lparr>cr_spotify_id := sid, cr_access_token := at,
                         cr_refresh_token := rt, cr_token_expires_at := expires_at,
                         cr_last_used_at := Some ts,
                         cr_liked_songs_sync_status :=
                           conflict_sync_status (cr_liked_songs_sync_status r)\<rparr>
                  else r) tbl
      else
        tbl @ [\<lparr>cr_user_id = uid, cr_spotify_id = sid, cr_access_token = at,
                 cr_refresh_token = rt, cr_token_expires_at = expires_at,
                 cr_last_used_at = dflt,
                 cr_liked_songs_sync_status = Some ''not_started'',
                 cr_liked_songs_count = 0\<rparr>])"

text \<open>Python's truth value of an \<^verbatim>\<open>Optional[str]\<close>.\<close>

definition truthy :: "string option \<Rightarrow> bool" where
  "truthy x = (case x of None \<Rightarrow> False | Some v \<Rightarrow> v \<noteq> [])"

text \<open>
  The handler of \<^verbatim>\<open>@router.get("/callback")\<close>. \<^verbatim>\<open>int(state)\<close> is the
  interpreter's, and its \<^verbatim>\<open>ValueError\<close> becomes the 400. The outer \<^verbatim>\<open>try\<close> turns every
  exception of the exchange and of the provider call into the error redirect; the
  inner \<^verbatim>\<open>try\<close> prints and drops an exception of the upsert. \<open>background_tasks\<close> is
  the truth value of the \<^verbatim>\<open>background_tasks\<close> argument. \<^verbatim>\<open>datetime.fromtimestamp\<close>
  keeps the instant.
\<close>

definition spotify_callback ::
  "env \<Rightarrow> state \<Rightarrow> string \<Rightarrow> string \<Rightarrow> string option \<Rightarrow> bool
     \<Rightarrow> (failure + redirect) \<times> state \<times> event list" where
  "spotify_callback e s code state' error background_tasks =
     (if truthy error then
        (Inl (HTTPException 400 (''spotify auth error: '' @ the error)), s, [])
      else case py_int e state' of
        None \<Rightarrow> (Inl (HTTPException 400 ''invalid state parameter''), s, [])
      | Some uid \<Rightarrow>
          (case get_access_token e (sp_oauth s) code of
             (Inl x, h) \<Rightarrow>
               (Inr (RedirectResponse (FRONTEND_URL e @ ''?spotify_error='' @ message x)),
                s\<lparr>sp_oauth := h\<rparr>, [Get_access_token code])
           | (Inr ti, h) \<Rightarrow>
               (case current_user e (tk_access_token ti) of
                  Inl x \<Rightarrow>
                    (Inr (RedirectResponse
                            (FRONTEND_URL e @ ''?spotify_error='' @ message x)),
                     s\<lparr>sp_oauth := h\<rparr>, [Get_access_token code, Current_user])
                | Inr spotify_id \<Rightarrow>
                    (Inr (RedirectResponse (FRONTEND_URL e @ ''?spotify_connected=true'')),
                     (case upsert_raises e of
                        Some x \<Rightarrow> s\<lparr>sp_oauth := h\<rparr>
                      | None \<Rightarrow>
                          s\<lparr>sp_oauth := h,
                            spotify_credentials :=
                              upsert_credentials (spotify_credentials s)
                                (default_last_used_at e) (current_timestamp e) uid
                                spotify_id (tk_access_token ti) (tk_refresh_token ti)
                                (tk_expires_at ti)\<rparr>),
                     [Get_access_token code, Current_user, Db INSERT Spotify_credentials]
                     @ (if background_tasks then [Add_task uid] else [])))))"

text \<open>
  The route as the framework serves it: \<^verbatim>\<open>code: str\<close> and \<^verbatim>\<open>state: str\<close> have no
  default, so a request without one of them is answered by the framework's parameter
  validation (status 422) and the handler is not called.
\<close>

record callback_query =
  q_code :: "string option"
  q_state :: "string option"
  q_error :: "string option"

definition callback_route ::
  "env \<Rightarrow> state \<Rightarrow> callback_query \<Rightarrow> bool \<Rightarrow> (failure + redirect) \<times> state \<times> event list" where
  "callback_route e s q background_tasks =
     (case q_code q of
        None \<Rightarrow> (Inl (HTTPException 422 ''field required''), s, [])
      | Some code \<Rightarrow>
          (case q_state q of
             None \<Rightarrow> (Inl (HTTPException 422 ''field required''), s, [])
           | Some state' \<Rightarrow> spotify_callback e s code state' (q_error q) background_tasks))"

section \<open>The read-proxy endpoints\<close>

subsection \<open>Playlists\<close>

text \<open>
  The loop \<^verbatim>\<open>while results["next"]: results = sp.next(results); playlists.extend(...)\<close>.
  Nothing bounds the number of pages a provider may chain, so the loop is a partial
  function: \<open>None\<close> is the run that never leaves the loop. The result carries the
  calls made so far.
\<close>

partial_function (option) follow_next ::
  "(string \<Rightarrow> exn + page) \<Rightarrow> page \<Rightarrow> playlist list \<Rightarrow> event list
     \<Rightarrow> ((exn + playlist list) \<times> event list) option" where
  "follow_next nxt results playlists' evs =
     (if truthy (pg_next results) then
        (case nxt (the (pg_next results)) of
           Inl x \<Rightarrow> Some (Inl x, evs @ [Next_page (the (pg_next results))])
         | Inr results' \<Rightarrow>
             follow_next nxt results' (playlists' @ pg_items results')
               (evs @ [Next_page (the (pg_next results))]))
      else Some (Inr playlists', evs))"

text \<open>
  \<^verbatim>\<open>SELECT spotify_playlist_id FROM playlists WHERE user_id = :user_id AND
  spotify_playlist_id IS NOT NULL\<close>, and the set built from its rows.
\<close>

definition fetch_all_imported :: "playlist_row list \<Rightarrow> int \<Rightarrow> string list" where
  "fetch_all_imported tbl uid =
     map (\<lambda>r. the (pr_spotify_playlist_id r))
       (filter (\<lambda>r. pr_user_id r = uid \<and> pr_spotify_playlist_id r \<noteq> None) tbl)"

definition imported_playlist_ids :: "playlist_row list \<Rightarrow> int \<Rightarrow> string set" where
  "imported_playlist_ids tbl uid = set (fetch_all_imported tbl uid)"

record playlist_out =
  po_id :: string
  po_name :: string
  po_description :: "string option"
  po_is_imported :: bool

definition format_playlist :: "string set \<Rightarrow> playlist \<Rightarrow> playlist_out" where
  "format_playlist imported p =
     \<lparr>po_id = pl_id p, po_name = pl_name p, po_description = pl_description p,
      po_is_imported = (pl_id p \<in> imported)\<rparr>"

text \<open>
  The body of \<^verbatim>\<open>get_spotify_playlists\<close>, once the dependency has given the client
  \<open>sp\<close>: every exception becomes \<^verbatim>\<open>HTTPException(500, ...)\<close>.
\<close>

definition playlists_body ::
  "env \<Rightarrow> state \<Rightarrow> User \<Rightarrow> Spotify \<Rightarrow> ((failure + playlist_out list) \<times> event list) option"
  where
  "playlists_body e s current_user' sp =
     (case current_user_playlists e (auth sp) of
        Inl x \<Rightarrow>
          Some (Inl (HTTPException 500 (''failed to fetch spotify playlists: '' @ message x)),
                [Current_user_playlists])
      | Inr results \<Rightarrow>
          (case follow_next (next_page e (auth sp)) results (pg_items results)
                  [Current_user_playlists] of
             None \<Rightarrow> None
           | Some (Inl x, evs) \<Rightarrow>
               Some (Inl (HTTPException 500
                            (''failed to fetch spotify playlists: '' @ message x)), evs)
           | Some (Inr playlists', evs) \<Rightarrow>
               Some (Inr (map (format_playlist
                                 (imported_playlist_ids (playlists s) (user_id current_user')))
                            playlists'),
                     evs @ [Db SELECT Playlists])))"

text \<open>
  \<^verbatim>\<open>@router.get("/playlists")\<close>: the framework resolves the dependency
  \<^verbatim>\<open>get_spotify_client\<close> first and answers with its failure without calling the body.
\<close>

definition get_spotify_playlists ::
  "env \<Rightarrow> state \<Rightarrow> User
     \<Rightarrow> ((failure + playlist_out list) \<times> state \<times> event list) option" where
  "get_spotify_playlists e s current_user' =
     (case get_spotify_client e s current_user' of
        (Inl f, s', evs) \<Rightarrow> Some (Inl f, s', evs)
      | (Inr sp, s', evs) \<Rightarrow>
          (case playlists_body e s' current_user' sp of
             None \<Rightarrow> None
           | Some (r, evs') \<Rightarrow> Some (r, s', evs @ evs')))"

subsection \<open>Recently played\<close>

record track_out =
  to_track_name :: string
  to_artist_name :: "string list"
  to_album_name :: string
  to_played_at :: string
  to_spotify_url :: string
  to_album_art_url :: "string option"

definition format_track :: "played_item \<Rightarrow> track_out" where
  "format_track item =
     \<lparr>to_track_name = pi_track_name item, to_artist_name = pi_artists item,
      to_album_name = pi_album_name item, to_played_at = pi_played_at item,
      to_spotify_url = pi_spotify_url item,
      to_album_art_url =
        (case pi_album_images item of [] \<Rightarrow> None | u # us \<Rightarrow> Some u)\<rparr>"

text \<open>\<^verbatim>\<open>@router.get("/recently-played")\<close>, with the same dependency.\<close>

definition get_recently_played_tracks ::
  "env \<Rightarrow> state \<Rightarrow> int \<Rightarrow> User \<Rightarrow> (failure + track_out list) \<times> state \<times> event list" where
  "get_recently_played_tracks e s limit user =
     (case get_spotify_client e s user of
        (Inl f, s', evs) \<Rightarrow> (Inl f, s', evs)
      | (Inr sp, s', evs) \<Rightarrow>
          (case current_user_recently_played e (auth sp) limit of
             Inl x \<Rightarrow>
               (Inl (HTTPException 500
                       (''Failed to fetch recently played tracks: '' @ message x)),
                s', evs @ [Current_user_recently_played limit])
           | Inr response \<Rightarrow>
               (Inr (map format_track
                       (case rr_items response of None \<Rightarrow> [] | Some tracks \<Rightarrow> tracks)),
                s', evs @ [Current_user_recently_played limit])))"

section \<open>The OAuth helper of the client library\<close>

text \<open>
  \<^verbatim>\<open>SpotifyOAuth\<close> is a class of the provider's client library. The handlers reach the
  cache handler only through its two methods, so the methods are given here as the
  library implements them, over the two grants of the provider's token endpoint
  (\<open>post_code\<close>, \<open>post_refresh\<close>): \<^verbatim>\<open>get_access_token\<close>, called as the module calls
  it (\<^verbatim>\<open>check_cache\<close> left at its default), asks the cache handler first and
  returns a cached token without looking at \<^verbatim>\<open>code\<close>. On the way its
  \<^verbatim>\<open>validate_token\<close> refreshes a token that is about to expire, and the method tests
  the expiry of what \<^verbatim>\<open>validate_token\<close> returned once more, refreshing again when the
  refreshed token is itself about to expire. (\<^verbatim>\<open>validate_token\<close> also compares the
  scope of the cached token with the helper's; every token in the cache was stamped
  with the helper's own scope when it was saved, so that test passes.) Only with an
  empty cache does the method exchange the code, and then it saves the token in the
  cache handler. \<^verbatim>\<open>refresh_access_token\<close> saves the refreshed token too. \<open>now\<close> is
  the clock the helper reads.
\<close>

definition is_token_expired :: "int \<Rightarrow> token \<Rightarrow> bool" where
  "is_token_expired now ti = (tk_expires_at ti - now < 60)"

definition SpotifyOAuth_refresh_access_token ::
  "(string \<Rightarrow> exn + token) \<Rightarrow> MemoryCacheHandler \<Rightarrow> string
     \<Rightarrow> (exn + token) \<times> MemoryCacheHandler" where
  "SpotifyOAuth_refresh_access_token post_refresh h rt =
     (case post_refresh rt of
        Inl x \<Rightarrow> (Inl x, h)
      | Inr ti \<Rightarrow> (Inr ti, save_token_to_cache h ti))"

definition SpotifyOAuth_get_access_token ::
  "int \<Rightarrow> (string \<Rightarrow> exn + token) \<Rightarrow> (string \<Rightarrow> exn + token) \<Rightarrow> MemoryCacheHandler \<Rightarrow> string
     \<Rightarrow> (exn + token) \<times> MemoryCacheHandler" where
  "SpotifyOAuth_get_access_token now post_code post_refresh h code =
     (case get_cached_token h of
        Some ti \<Rightarrow>
          if is_token_expired now ti then
            (case SpotifyOAuth_refresh_access_token post_refresh h (tk_refresh_token ti) of
               (Inl x, h') \<Rightarrow> (Inl x, h')
             | (Inr ti', h') \<Rightarrow>
                 if is_token_expired now ti'
                 then SpotifyOAuth_refresh_access_token post_refresh h' (tk_refresh_token ti')
                 else (Inr ti', h'))
          else (Inr ti, h)
      | None \<Rightarrow>
          (case post_code code of
             Inl x \<Rightarrow> (Inl x, h)
           | Inr ti \<Rightarrow> (Inr ti, save_token_to_cache h ti)))"

section \<open>A concrete interpreter and provider, for the examples\<close>

text \<open>
  The \<^verbatim>\<open>int\<close> of the examples, on a \<^verbatim>\<open>str\<close> of ASCII characters: the whitespace
  characters space, tab, line feed, vertical tab, form feed and carriage return are
  dropped at both ends, one sign is allowed, then come decimal digits with single
  underscores between digits, at most 4300 digits (the interpreter's default limit).
  \<open>None\<close> is the \<^verbatim>\<open>ValueError\<close>. The examples use ASCII strings only.
\<close>

definition is_space :: "char \<Rightarrow> bool" where
  "is_space c = (c \<in> set [CHR '' '', CHR 0x09, CHR 0x0A, CHR 0x0B, CHR 0x0C, CHR 0x0D])"

definition is_digit :: "char \<Rightarrow> bool" where
  "is_digit c = (c \<in> set ''0123456789'')"

definition digit_val :: "char \<Rightarrow> nat" where
  "digit_val c = length (takeWhile (\<lambda>d. d \<noteq> c) ''0123456789'')"

definition strip :: "string \<Rightarrow> string" where
  "strip s = rev (dropWhile is_space (rev (dropWhile is_space s)))"

fun parse_digits :: "nat \<Rightarrow> string \<Rightarrow> nat option" where
  "parse_digits acc [] = None"
| "parse_digits acc [c] = (if is_digit c then Some (acc * 10 + digit_val c) else None)"
| "parse_digits acc (c # d # ds) =
     (if is_digit c
      then (if d = CHR ''_'' then parse_digits (acc * 10 + digit_val c) ds
            else parse_digits (acc * 10 + digit_val c) (d # ds))
      else None)"

definition ascii_int :: "string \<Rightarrow> int option" where
  "ascii_int s =
     (if 4300 < length (filter is_digit s) then None
      else case strip s of
        [] \<Rightarrow> None
      | c # cs \<Rightarrow>
          if c = CHR ''-'' then map_option (\<lambda>n. - int n) (parse_digits 0 cs)
          else if c = CHR ''+'' then map_option int (parse_digits 0 cs)
          else map_option int (parse_digits 0 (c # cs)))"

text \<open>
  A provider that answers every grant with a token named after the grant, valid for
  \<open>lifetime\<close> seconds from \<open>now\<close>, and serves three playlists on two pages.
\<close>

definition issue :: "int \<Rightarrow> int \<Rightarrow> string \<Rightarrow> exn + token" where
  "issue now lifetime grant =
     Inr \<lparr>tk_access_token = ''access-'' @ grant, tk_refresh_token = ''refresh-'' @ grant,
          tk_expires_in = lifetime, tk_expires_at = now + lifetime\<rparr>"

definition page_one :: page where
  "page_one =
     \<lparr>pg_items = [\<lparr>pl_id = ''p1'', pl_name = ''Morning'', pl_description = None\<rparr>,
                  \<lparr>pl_id = ''p2'', pl_name = ''Road'', pl_description = Some ''trip''\<rparr>],
      pg_next = Some ''offset=2''\<rparr>"

definition page_two :: page where
  "page_two =
     \<lparr>pg_items = [\<lparr>pl_id = ''p3'', pl_name = ''Night'', pl_description = None\<rparr>],
      pg_next = None\<rparr>"

definition example_env :: env where
  "example_env =
     \<lparr>FRONTEND_URL = ''http://frontend'',
      py_int = ascii_int,
      get_authorize_url = (\<lambda>st. ''https://provider/authorize?state='' @ st),
      get_access_token = SpotifyOAuth_get_access_token 1000 (issue 1000 3600) (issue 1000 3600),
      refresh_access_token = SpotifyOAuth_refresh_access_token (issue 1000 3600),
      current_user = (\<lambda>at. Inr (''account-of-'' @ at)),
      current_user_playlists = (\<lambda>at. Inr page_one),
      next_page = (\<lambda>at u. if u = ''offset=2'' then Inr page_two
                             else Inl (Exception ''not found'')),
      current_user_recently_played = (\<lambda>at n. Inr \<lparr>rr_items = None\<rparr>),
      now_check = 1000, now_write = 1000, current_timestamp = 1000,
      default_last_used_at = None, upsert_raises = None\<rparr>"

text \<open>A row of user \<open>uid\<close> whose token runs out at \<open>expires_at\<close>, with a sync status.\<close>

definition example_row :: "int \<Rightarrow> int \<Rightarrow> string option \<Rightarrow> cred_row" where
  "example_row uid expires_at st =
     \<lparr>cr_user_id = uid, cr_spotify_id = ''acct'', cr_access_token = ''old-access'',
      cr_refresh_token = ''old-refresh'', cr_token_expires_at = expires_at,
      cr_last_used_at = None, cr_liked_songs_sync_status = st,
      cr_liked_songs_count = 12\<rparr>"

definition example_state :: "cred_row list \<Rightarrow> state" where
  "example_state tbl =
     \<lparr>spotify_credentials = tbl,
      playlists = [\<lparr>pr_user_id = 7, pr_spotify_playlist_id = Some ''p2''\<rparr>,
                   \<lparr>pr_user_id = 7, pr_spotify_playlist_id = None\<rparr>,
                   \<lparr>pr_user_id = 8, pr_spotify_playlist_id = Some ''p3''\<rparr>],
      sp_oauth = MemoryCacheHandler_init\<rparr>"

definition example_user :: "int \<Rightarrow> User" where
  "example_user uid = \<lparr>user_id = uid, username = ''someone''\<rparr>"

text \<open>
  The claim's words for a run of pages: each page but the last names its successor by
  the \<^verbatim>\<open>next\<close> URL, which the provider serves; the last page has none.
\<close>

fun page_chain :: "(string \<Rightarrow> exn + page) \<Rightarrow> page \<Rightarrow> page list \<Rightarrow> bool" where
  "page_chain nxt p [] = (\<not> truthy (pg_next p))"
| "page_chain nxt p (q # qs) =
     (truthy (pg_next p) \<and> nxt (the (pg_next p)) = Inr q \<and> page_chain nxt q qs)"

fun is_redirect :: "failure + redirect \<Rightarrow> bool" where
  "is_redirect (Inr r) = True"
| "is_redirect (Inl f) = False"

section \<open>The token refresh gate: properties\<close>

lemma fetch_one_none:
  "uid \<notin> cr_user_id ` set tbl \<Longrightarrow> fetch_one_credentials tbl uid = None"
  by (induction tbl) (simp_all add: fetch_one_credentials_def)



text \<open>
  Claim C5. For an authenticated user without a Credential row, both endpoints that
  depend on \<open>get_spotify_client\<close> (\<^verbatim>\<open>/recently-played\<close> and \<^verbatim>\<open>/playlists\<close>) fail with
  status 401, and the only call made is the read of the Credential table: no call to
  the provider's API is attempted.
\<close>

theorem unconnected_user_gets_401_without_provider_call:
  assumes "user_id user \<notin> cr_user_id ` set (spotify_credentials s)"
  shows "get_recently_played_tracks e s limit user =
           (Inl (HTTPException 401 ''spotify account not connected''), s,
            [Db SELECT Spotify_credentials])
         \<and> get_spotify_playlists e s user =
             Some (Inl (HTTPException 401 ''spotify account not connected''), s,
                   [Db SELECT Spotify_credentials])
         \<and> status_code (HTTPException 401 ''spotify account not connected'') = 401
         \<and> filter is_provider_api [Db SELECT Spotify_credentials] = []"
  using fetch_one_none [OF assms]
  by (simp add: get_recently_played_tracks_def get_spotify_playlists_def
      get_spotify_client_def)

theorem unconnected_user_gets_401_without_provider_call_witness:
  "user_id (example_user 7) \<notin> cr_user_id ` set (spotify_credentials (example_state []))
   \<and> get_recently_played_tracks example_env (example_state []) 50 (example_user 7) =
       (Inl (HTTPException 401 ''spotify account not connected''), example_state [],
        [Db SELECT Spotify_credentials])
   \<and> get_spotify_playlists example_env (example_state []) (example_user 7) =
       Some (Inl (HTTPException 401 ''spotify account not connected''), example_state [],
             [Db SELECT Spotify_credentials])"
proof -
  have h: "user_id (example_user 7)
             \<notin> cr_user_id ` set (spotify_credentials (example_state []))"
    by (simp add: example_state_def)
  from unconnected_user_gets_401_without_provider_call [OF h, of example_env 50] h
  show ?thesis by simp
qed

section \<open>The authorization flow: properties\<close>

lemma execute_select_id_member:
  "r \<in> set tbl \<Longrightarrow> cr_user_id r = uid \<Longrightarrow> execute_select_id tbl uid"
  by (auto simp: execute_select_id_def list_ex_iff)

text \<open>
  Claim C8. For an authenticated user who already has a Credential row, whatever the
  row holds (any tokens, any expiry), \<^verbatim>\<open>GET /connect\<close> fails with status 400; the only
  call made is the read of the table, so no authorize URL is built, and none is
  returned.
\<close>

theorem connect_when_connected_is_400:
  assumes "r \<in> set (spotify_credentials s)" and "cr_user_id r = user_id u"
  shows "spotify_connect e s u =
           (Inl (HTTPException 400 ''spotify already connected''), s,
            [Db SELECT Spotify_credentials])"
  using execute_select_id_member [OF assms] by (simp add: spotify_connect_def)

theorem connect_when_connected_is_400_witness:
  "example_row 7 0 None \<in> set (spotify_credentials (example_state [example_row 7 0 None]))
   \<and> cr_user_id (example_row 7 0 None) = user_id (example_user 7)
   \<and> spotify_connect example_env (example_state [example_row 7 0 None]) (example_user 7) =
       (Inl (HTTPException 400 ''spotify already connected''),
        example_state [example_row 7 0 None], [Db SELECT Spotify_credentials])"
proof -
  have h1: "example_row 7 0 None
              \<in> set (spotify_credentials (example_state [example_row 7 0 None]))"
    by (simp add: example_state_def)
  have h2: "cr_user_id (example_row 7 0 None) = user_id (example_user 7)"
    by (simp add: example_row_def example_user_def)
  from connect_when_connected_is_400 [OF h1 h2, of example_env] h1 h2
  show ?thesis by simp
qed

text \<open>
  Claim C6. When the \<^verbatim>\<open>state\<close> parameter does not parse as an integer, that is,
  when the interpreter's \<^verbatim>\<open>int(state)\<close> raises \<^verbatim>\<open>ValueError\<close>, whatever the
  interpreter and whatever the string, and the \<^verbatim>\<open>error\<close> parameter is absent (or
  empty), the callback handler fails with status 400, having made no call at all:
  the token exchange and the provider's API are never reached, and the state is
  untouched.
\<close>

theorem callback_non_integer_state_is_400:
  assumes "py_int e state' = None" and "\<not> truthy error"
  shows "spotify_callback e s code state' error bg =
           (Inl (HTTPException 400 ''invalid state parameter''), s, [])
         \<and> filter is_network (snd (snd (spotify_callback e s code state' error bg))) = []"
  using assms by (simp add: spotify_callback_def)

theorem callback_non_integer_state_is_400_witness:
  "py_int example_env ''seven'' = None \<and> \<not> truthy None
   \<and> spotify_callback example_env (example_state []) ''code'' ''seven'' None True =
       (Inl (HTTPException 400 ''invalid state parameter''), example_state [], [])"
proof -
  have h1: "py_int example_env ''seven'' = None"
    by (simp add: example_env_def ascii_int_def strip_def is_space_def is_digit_def)
  have h2: "\<not> truthy None"
    by (simp add: truthy_def)
  from callback_non_integer_state_is_400 [OF h1 h2, of "example_state []"
      "''code''" True] h1 h2
  show ?thesis by simp
qed

text \<open>
  Claim C2, as stated, fails: with \<^verbatim>\<open>error=access_denied\<close> the handler does not
  redirect, it raises \<^verbatim>\<open>HTTPException(400)\<close>.
\<close>

theorem callback_error_redirects_counterexample:
  "\<not> is_redirect
       (fst (spotify_callback example_env (example_state []) ''code'' ''7''
               (Some ''access_denied'') True))
   \<and> fst (spotify_callback example_env (example_state []) ''code'' ''7''
            (Some ''access_denied'') True) =
       Inl (HTTPException 400 ''spotify auth error: access_denied'')"
  by (simp add: spotify_callback_def truthy_def)

text \<open>
  Claim C2, amended. When the \<^verbatim>\<open>error\<close> parameter is present and not empty, the
  callback handler fails with status 400 and the detail
  \<^verbatim>\<open>spotify auth error: <error>\<close>; it makes no call, so the Credential table is neither
  read nor written, and the state is untouched.
\<close>

theorem callback_error_is_400_and_touches_nothing:
  assumes "error = Some x" and "x \<noteq> []"
  shows "spotify_callback e s code state' error bg =
           (Inl (HTTPException 400 (''spotify auth error: '' @ x)), s, [])
         \<and> filter touches_credentials
             (snd (snd (spotify_callback e s code state' error bg))) = []"
  using assms by (simp add: spotify_callback_def truthy_def)

theorem callback_error_is_400_and_touches_nothing_witness:
  "Some ''access_denied'' = Some ''access_denied'' \<and> ''access_denied'' \<noteq> []
   \<and> spotify_callback example_env (example_state []) ''code'' ''7''
        (Some ''access_denied'') True =
       (Inl (HTTPException 400 (''spotify auth error: '' @ ''access_denied'')),
        example_state [], [])"
proof -
  have h1: "Some ''access_denied'' = Some ''access_denied''"
    by simp
  have h2: "''access_denied'' \<noteq> []"
    by simp
  from callback_error_is_400_and_touches_nothing [OF h1 h2, of example_env
      "example_state []" "''code''" "''7''" True]
  show ?thesis by simp
qed

text \<open>
  Claim C10. \<^verbatim>\<open>code\<close> and \<^verbatim>\<open>state\<close> are required parameters of the route: a
  request that lacks one of them is rejected by parameter validation, whatever its
  \<^verbatim>\<open>error\<close> parameter, without the handler making any call; a request that carries
  both together with a non-empty \<^verbatim>\<open>error\<close> gets the 400 with the provider's error
  string; and that 400 is only ever the answer to a request carrying both.
\<close>

theorem callback_route_requires_code_and_state:
  "(q_code q = None \<or> q_state q = None \<longrightarrow>
      callback_route e s q bg = (Inl (HTTPException 422 ''field required''), s, []))
   \<and> (q_code q = Some c \<and> q_state q = Some st \<and> q_error q = Some x \<and> x \<noteq> [] \<longrightarrow>
      callback_route e s q bg =
        (Inl (HTTPException 400 (''spotify auth error: '' @ x)), s, []))
   \<and> (fst (callback_route e s q bg) = Inl (HTTPException 400 (''spotify auth error: '' @ y))
        \<longrightarrow> q_code q \<noteq> None \<and> q_state q \<noteq> None)"
  by (auto simp: callback_route_def spotify_callback_def truthy_def
      split: option.splits)

theorem callback_route_requires_code_and_state_witness:
  "callback_route example_env (example_state [])
     \<lparr>q_code = None, q_state = Some ''7'', q_error = Some ''access_denied''\<rparr> True =
     (Inl (HTTPException 422 ''field required''), example_state [], [])
   \<and> callback_route example_env (example_state [])
       \<lparr>q_code = Some ''code'', q_state = Some ''7'', q_error = Some ''access_denied''\<rparr> True =
       (Inl (HTTPException 400 (''spotify auth error: '' @ ''access_denied'')),
        example_state [], [])"
  using callback_route_requires_code_and_state [of
      "\<lparr>q_code = None, q_state = Some ''7'', q_error = Some ''access_denied''\<rparr>"
      example_env "example_state []" True "''code''" "''7''" "''access_denied''" "[]"]
    callback_route_requires_code_and_state [of
      "\<lparr>q_code = Some ''code'', q_state = Some ''7'', q_error = Some ''access_denied''\<rparr>"
      example_env "example_state []" True "''code''" "''7''" "''access_denied''" "[]"]
  by simp

section \<open>Refresh: how often, and the new expiry\<close>








section \<open>The callback's upsert\<close>












section \<open>Playlists: pagination and the imported flag\<close>

text \<open>
  On a run of pages the loop leaves with the items of every page after the first
  appended, in order, and has asked for the successor of every page but the last.
\<close>

lemma follow_next_chain:
  "page_chain nxt p qs \<Longrightarrow>
   follow_next nxt p acc evs =
     Some (Inr (acc @ concat (map pg_items qs)),
           evs @ map (\<lambda>q. Next_page (the (pg_next q))) (butlast (p # qs)))"
proof (induction qs arbitrary: p acc evs)
  case Nil
  then show ?case by (subst follow_next.simps) simp
next
  case (Cons q qs)
  from Cons.prems have t: "truthy (pg_next p)" and n: "nxt (the (pg_next p)) = Inr q"
    and c: "page_chain nxt q qs"
    by simp_all
  show ?case
    by (subst follow_next.simps) (simp add: t n Cons.IH [OF c])
qed

lemma imported_playlist_ids_iff:
  "pid \<in> imported_playlist_ids tbl uid \<longleftrightarrow>
   (\<exists>row \<in> set tbl. pr_user_id row = uid \<and> pr_spotify_playlist_id row = Some pid)"
  by (force simp: imported_playlist_ids_def fetch_all_imported_def)

lemma get_spotify_client_keeps_playlists:
  "playlists (fst (snd (get_spotify_client e s u))) = playlists s"
  by (simp add: get_spotify_client_def split: option.splits prod.splits sum.splits)

text \<open>
  The refresh gate works on a helper of its own: the cache handler of the module-level
  helper is the same after the call.
\<close>

lemma get_spotify_client_keeps_sp_oauth:
  "sp_oauth (fst (snd (get_spotify_client e s u))) = sp_oauth s"
  by (simp add: get_spotify_client_def split: option.splits prod.splits sum.splits)

text \<open>
  Claim C7. When the provider serves a run of pages \<open>p # qs\<close> chained by their
  \<^verbatim>\<open>next\<close> URLs, \<open>get_spotify_playlists\<close> follows the URL of every page that has
  one, stops at the page without, and returns one record per item of every page, in
  order; the \<^verbatim>\<open>is_imported\<close> field of a record is the membership of the playlist's id
  among the \<^verbatim>\<open>spotify_playlist_id\<close> values of the user's rows of the local
  \<^verbatim>\<open>playlists\<close> table.
\<close>

theorem playlists_follow_every_page:
  assumes "get_spotify_client e s u = (Inr sp, s', evs)"
      and "current_user_playlists e (auth sp) = Inr p"
      and "page_chain (next_page e (auth sp)) p qs"
  shows "get_spotify_playlists e s u =
           Some (Inr (map (\<lambda>pl. \<lparr>po_id = pl_id pl, po_name = pl_name pl,
                                 po_description = pl_description pl,
                                 po_is_imported =
                                   (\<exists>row \<in> set (playlists s).
                                      pr_user_id row = user_id u
                                      \<and> pr_spotify_playlist_id row = Some (pl_id pl))\<rparr>)
                        (concat (map pg_items (p # qs)))),
                 s',
                 evs @ [Current_user_playlists]
                   @ map (\<lambda>q. Next_page (the (pg_next q))) (butlast (p # qs))
                   @ [Db SELECT Playlists])"
proof -
  from assms(1) get_spotify_client_keeps_playlists [of e s u]
  have pl: "playlists s' = playlists s"
    by simp
  have fmt: "format_playlist (imported_playlist_ids (playlists s) (user_id u)) =
             (\<lambda>pl. \<lparr>po_id = pl_id pl, po_name = pl_name pl,
                     po_description = pl_description pl,
                     po_is_imported =
                       (\<exists>row \<in> set (playlists s).
                          pr_user_id row = user_id u
                          \<and> pr_spotify_playlist_id row = Some (pl_id pl))\<rparr>)"
    by (rule ext) (simp add: format_playlist_def imported_playlist_ids_iff)
  have body: "playlists_body e s' u sp =
                Some (Inr (map (format_playlist
                                  (imported_playlist_ids (playlists s) (user_id u)))
                             (concat (map pg_items (p # qs)))),
                      [Current_user_playlists]
                        @ map (\<lambda>q. Next_page (the (pg_next q))) (butlast (p # qs))
                        @ [Db SELECT Playlists])"
    using assms(2) follow_next_chain [OF assms(3), of "pg_items p" "[Current_user_playlists]"]
    by (simp add: playlists_body_def pl)
  show ?thesis
    using assms(1) body by (simp add: get_spotify_playlists_def fmt)
qed

theorem playlists_follow_every_page_witness:
  "get_spotify_client example_env (example_state [example_row 7 2000 None]) (example_user 7)
     = (Inr (Spotify ''old-access''), example_state [example_row 7 2000 None],
        [Db SELECT Spotify_credentials])
   \<and> current_user_playlists example_env (auth (Spotify ''old-access'')) = Inr page_one
   \<and> page_chain (next_page example_env (auth (Spotify ''old-access''))) page_one [page_two]
   \<and> get_spotify_playlists example_env (example_state [example_row 7 2000 None])
        (example_user 7) =
       Some (Inr [\<lparr>po_id = ''p1'', po_name = ''Morning'', po_description = None,
                    po_is_imported = False\<rparr>,
                  \<lparr>po_id = ''p2'', po_name = ''Road'', po_description = Some ''trip'',
                    po_is_imported = True\<rparr>,
                  \<lparr>po_id = ''p3'', po_name = ''Night'', po_description = None,
                    po_is_imported = False\<rparr>],
             example_state [example_row 7 2000 None],
             [Db SELECT Spotify_credentials, Current_user_playlists, Next_page ''offset=2'',
              Db SELECT Playlists])"
proof -
  have h1: "get_spotify_client example_env (example_state [example_row 7 2000 None])
              (example_user 7)
     = (Inr (Spotify ''old-access''), example_state [example_row 7 2000 None],
        [Db SELECT Spotify_credentials])"
    by (simp add: get_spotify_client_def fetch_one_credentials_def example_env_def
        example_state_def example_row_def example_user_def)
  have h2: "current_user_playlists example_env (auth (Spotify ''old-access'')) = Inr page_one"
    by (simp add: example_env_def)
  have h3: "page_chain (next_page example_env (auth (Spotify ''old-access''))) page_one
              [page_two]"
    by (simp add: example_env_def page_one_def page_two_def truthy_def)
  have pl: "playlists (example_state [example_row 7 2000 None]) =
              [\<lparr>pr_user_id = 7, pr_spotify_playlist_id = Some ''p2''\<rparr>,
               \<lparr>pr_user_id = 7, pr_spotify_playlist_id = None\<rparr>,
               \<lparr>pr_user_id = 8, pr_spotify_playlist_id = Some ''p3''\<rparr>]"
    by (simp add: example_state_def)
  have u: "user_id (example_user 7) = 7"
    by (simp add: example_user_def)
  from playlists_follow_every_page [OF h1 h2 h3] h1 h2 h3
  show ?thesis
    unfolding pl u by (simp add: page_one_def page_two_def)
qed

section \<open>The cache of the module-level helper\<close>

text \<open>
  Claim C1 does not hold of the callback. Two callbacks in a row, of users 1 and 2,
  each with its own authorization code: the first leaves its token in the cache
  handler of the module-level helper, the second is handed that token instead of an
  exchange of its own code, and the row of user 2 is written with the access token and
  the provider account of user 1.
\<close>

theorem callback_hands_cached_token_to_next_request:
  "token_info (sp_oauth (fst (snd (spotify_callback example_env (example_state [])
       ''code-of-user-1'' ''1'' None True)))) =
     Some \<lparr>tk_access_token = ''access-code-of-user-1'',
           tk_refresh_token = ''refresh-code-of-user-1'',
           tk_expires_in = 3600, tk_expires_at = 4600\<rparr>
   \<and> map (\<lambda>r. (cr_user_id r, cr_spotify_id r, cr_access_token r))
        (spotify_credentials (fst (snd (spotify_callback example_env
           (fst (snd (spotify_callback example_env (example_state [])
              ''code-of-user-1'' ''1'' None True)))
           ''code-of-user-2'' ''2'' None True)))) =
       [(1, ''account-of-access-code-of-user-1'', ''access-code-of-user-1''),
        (2, ''account-of-access-code-of-user-1'', ''access-code-of-user-1'')]"
  by (simp add: spotify_callback_def truthy_def ascii_int_def strip_def is_space_def
      is_digit_def digit_val_def example_env_def example_state_def
      SpotifyOAuth_get_access_token_def get_cached_token_def MemoryCacheHandler_init_def
      save_token_to_cache_def issue_def is_token_expired_def upsert_credentials_def)

end
